theory Spec2Isabelle
  imports Main
begin

section \<open>pysqlscribe: columns and comparison expressions\<close>

text \<open>
  A shallow embedding of \<^verbatim>\<open>pysqlscribe/column.py\<close>: the class \<^verbatim>\<open>Expression\<close>
  with its \<^verbatim>\<open>__str__\<close>, and the class \<^verbatim>\<open>Column\<close> with its validating
  \<^verbatim>\<open>name\<close> property, the operand dispatch \<^verbatim>\<open>_expression\<close> and the five
  comparison methods. Exceptions are values of the type \<open>error\<close>; a method that
  may raise returns \<open>error + 'a\<close>, with \<open>Inl\<close> for the exception.

  Python's \<^verbatim>\<open>str\<close> is modelled by \<open>string\<close>; no definition below looks inside a
  character, apart from the grammars of the last subsection of the model.
\<close>

subsection \<open>Exceptions\<close>

text \<open>
  \<^verbatim>\<open>InvalidColumnNameException\<close> is the module's own exception (the spec's
  InvalidIdentifierError); \<^verbatim>\<open>NotImplementedError\<close> is what \<^verbatim>\<open>_expression\<close> raises
  (the spec's UnsupportedOperandError); \<^verbatim>\<open>TypeError\<close>, \<^verbatim>\<open>AttributeError\<close> and
  \<^verbatim>\<open>ValueError\<close> are raised by the interpreter itself: when an object that is not
  callable is called, when an attribute that an object does not have is read, and when
  \<^verbatim>\<open>str\<close> is asked for the decimal form of an integer with more digits than the
  interpreter converts.
\<close>

datatype error =
    InvalidColumnNameException
  | NotImplementedError
  | TypeError
  | AttributeError
  | ValueError

definition and_then :: "error + 'a \<Rightarrow> ('a \<Rightarrow> error + 'b) \<Rightarrow> error + 'b" where
  "and_then r f = (case r of Inl e \<Rightarrow> Inl e | Inr x \<Rightarrow> f x)"

subsection \<open>The objects imported from \<^verbatim>\<open>pysqlscribe.regex_patterns\<close>\<close>

text \<open>
  \<^verbatim>\<open>column.py\<close> imports two module-level objects and uses them in two different ways:
  it reads the attribute \<^verbatim>\<open>match\<close> of the first and calls it on the name, and it
  calls the second one itself on the name. What either use does depends on the kind
  of the object:
  \<^item> a compiled pattern (\<^verbatim>\<open>re.Pattern\<close>) has a method \<^verbatim>\<open>match\<close>, whose result is
    truthy exactly for the strings the pattern accepts, and it is not callable:
    calling it raises \<^verbatim>\<open>TypeError\<close>;
  \<^item> a plain function is callable and has no attribute \<^verbatim>\<open>match\<close>: reading it raises
    \<^verbatim>\<open>AttributeError\<close>.
  Both kinds carry the set of strings they accept, as a predicate.
\<close>

datatype pyobj =
    Pattern "string \<Rightarrow> bool"
  | Function "string \<Rightarrow> bool"

fun accepts :: "pyobj \<Rightarrow> string \<Rightarrow> bool" where
  "accepts (Pattern p) s = p s"
| "accepts (Function f) s = f s"

text \<open>\<^verbatim>\<open>obj.match(s)\<close>, reduced to the truth value that \<^verbatim>\<open>or\<close> and \<^verbatim>\<open>not\<close> see.\<close>

fun dot_match :: "pyobj \<Rightarrow> string \<Rightarrow> error + bool" where
  "dot_match (Pattern p) s = Inr (p s)"
| "dot_match (Function f) s = Inl AttributeError"

text \<open>\<^verbatim>\<open>obj(s)\<close>, reduced to its truth value in the same way.\<close>

fun call :: "pyobj \<Rightarrow> string \<Rightarrow> error + bool" where
  "call (Pattern p) s = Inl TypeError"
| "call (Function f) s = Inr (f s)"

record regex_patterns =
  VALID_IDENTIFIER_REGEX :: pyobj
  AGGREGATE_IDENTIFIER_REGEX :: pyobj

subsection \<open>Expression\<close>

record Expression =
  left :: string
  operator :: string
  right :: string

text \<open>\<^verbatim>\<open>__init__\<close> stores its three arguments.\<close>

definition Expression_init :: "string \<Rightarrow> string \<Rightarrow> string \<Rightarrow> Expression" where
  "Expression_init l op r = \<lparr>left = l, operator = op, right = r\<rparr>"

text \<open>
  \<^verbatim>\<open>__str__\<close> is the f-string \<^verbatim>\<open>f"{self.left} {self.operator} {self.right}"\<close>. Its
  body reads the three fields and assigns nothing, so the model is a function of the
  fields alone.
\<close>

definition Expression_str :: "Expression \<Rightarrow> string" where
  "Expression_str self = left self @ '' '' @ operator self @ '' '' @ right self"

subsection \<open>Column\<close>

text \<open>
  The only attribute of a \<^verbatim>\<open>Column\<close> object is \<^verbatim>\<open>_name\<close>. It is \<open>None\<close> while the
  object has not been assigned a name yet, which is the state in which \<^verbatim>\<open>__init__\<close>
  receives the object.
\<close>

record Column =
  name_attr :: "string option"

text \<open>The getter of the property \<^verbatim>\<open>name\<close>: \<^verbatim>\<open>return self._name\<close>.\<close>

definition name :: "Column \<Rightarrow> error + string" where
  "name self = (case name_attr self of None \<Rightarrow> Inl AttributeError | Some n \<Rightarrow> Inr n)"

text \<open>
  The setter of the property \<^verbatim>\<open>name\<close>. It returns the exception raised, if any,
  and the object as the call leaves it. The condition is
  \<^verbatim>\<open>VALID_IDENTIFIER_REGEX.match(column_name) or AGGREGATE_IDENTIFIER_REGEX(column_name)\<close>:
  \<^verbatim>\<open>or\<close> evaluates its right operand only when the left one is falsy, and an
  exception raised by either operand leaves the method before the assignment.
\<close>

definition name_setter :: "regex_patterns \<Rightarrow> Column \<Rightarrow> string \<Rightarrow> error option \<times> Column" where
  "name_setter env self column_name =
     (case and_then (dot_match (VALID_IDENTIFIER_REGEX env) column_name)
             (\<lambda>m. if m then Inr True else call (AGGREGATE_IDENTIFIER_REGEX env) column_name) of
        Inl e \<Rightarrow> (Some e, self)
      | Inr ok \<Rightarrow>
          if \<not> ok then (Some InvalidColumnNameException, self)
          else (None, self\<lparr>name_attr := Some column_name\<rparr>))"

text \<open>
  \<^verbatim>\<open>Column(name)\<close>: \<^verbatim>\<open>__init__\<close> runs \<^verbatim>\<open>self.name = name\<close> on the fresh object.
  When the setter raises, the exception leaves the constructor and the caller gets no
  object.
\<close>

definition Column_init :: "regex_patterns \<Rightarrow> string \<Rightarrow> error + Column" where
  "Column_init env name_arg =
     (case name_setter env \<lparr>name_attr = None\<rparr> name_arg of
        (Some e, _) \<Rightarrow> Inl e
      | (None, self) \<Rightarrow> Inr self)"

subsection \<open>Operands\<close>

text \<open>
  The values a comparison can receive as its right operand, by class. \<^verbatim>\<open>bool\<close> is
  a subclass of \<^verbatim>\<open>int\<close>, so \<^verbatim>\<open>isinstance(True, int)\<close> holds. A float is given by
  mantissa and exponent; nothing below reads them. Instances of subclasses that a
  caller defines are not modelled apart from their base class.
\<close>

datatype pyval =
    PyColumn Column
  | PyStr string
  | PyInt int
  | PyBool bool
  | PyFloat int int
  | PyNone
  | PyList "pyval list"

fun isinstance_Column :: "pyval \<Rightarrow> bool" where
  "isinstance_Column (PyColumn c) = True"
| "isinstance_Column v = False"

fun isinstance_str :: "pyval \<Rightarrow> bool" where
  "isinstance_str (PyStr s) = True"
| "isinstance_str v = False"

fun isinstance_int :: "pyval \<Rightarrow> bool" where
  "isinstance_int (PyInt i) = True"
| "isinstance_int (PyBool b) = True"
| "isinstance_int v = False"

subsection \<open>\<^verbatim>\<open>str\<close> of an integer and of a boolean\<close>

definition digit_char :: "nat \<Rightarrow> char" where
  "digit_char d = ''0123456789'' ! d"

fun digits :: "nat \<Rightarrow> string" where
  "digits n = (if n < 10 then [digit_char n] else digits (n div 10) @ [digit_char (n mod 10)])"

declare digits.simps [simp del]

text \<open>The decimal form of an integer: a minus sign when it is negative, then its digits.\<close>

definition decimal_text :: "int \<Rightarrow> string" where
  "decimal_text i = (if i < 0 then CHR ''-'' # digits (nat (- i)) else digits (nat i))"

text \<open>
  \<^verbatim>\<open>str(i)\<close> of an \<^verbatim>\<open>int\<close>. \<^verbatim>\<open>column.py\<close> imports \<^verbatim>\<open>typing.Self\<close>, which
  exists from Python 3.11 on, and these interpreters bound the conversion of an integer
  to decimal text: when the limit is not zero and the integer has more digits than the
  limit, the sign not counted, \<^verbatim>\<open>str\<close> raises \<^verbatim>\<open>ValueError\<close>. The limit is
  \<^verbatim>\<open>sys.get_int_max_str_digits()\<close>, 4300 unless the process is started or set up
  otherwise, which nothing in \<^verbatim>\<open>column.py\<close> does.
\<close>

definition str_int :: "nat \<Rightarrow> int \<Rightarrow> error + string" where
  "str_int max_str_digits i =
     (if 0 < max_str_digits \<and> max_str_digits < length (digits (nat \<bar>i\<bar>)) then Inl ValueError
      else Inr (decimal_text i))"

definition int_max_str_digits :: nat where
  "int_max_str_digits = 4300"

definition str_bool :: "bool \<Rightarrow> string" where
  "str_bool b = (if b then ''True'' else ''False'')"

text \<open>
  Reading a decimal numeral back: an optional minus sign, then one or more digits,
  the first of which is not a zero unless the numeral is \<^verbatim>\<open>0\<close> itself. This is the
  meaning of "decimal textual form": the decimal form of \<open>i\<close> is the one text
  that reads back as \<open>i\<close>.
\<close>

definition digit_value :: "char \<Rightarrow> nat option" where
  "digit_value c = map_of (zip ''0123456789'' [0, 1, 2, 3, 4, 5, 6, 7, 8, 9]) c"

fun decimal_nat :: "nat \<Rightarrow> string \<Rightarrow> nat option" where
  "decimal_nat acc [] = Some acc"
| "decimal_nat acc (c # cs) =
     (case digit_value c of None \<Rightarrow> None | Some d \<Rightarrow> decimal_nat (10 * acc + d) cs)"

fun decimal_value :: "string \<Rightarrow> int option" where
  "decimal_value [] = None"
| "decimal_value (c # cs) =
     (if c = CHR ''-'' then
        (case cs of
           [] \<Rightarrow> None
         | d # ds \<Rightarrow>
             if d = CHR ''0'' then None else map_option (\<lambda>n. - int n) (decimal_nat 0 cs))
      else if c = CHR ''0'' \<and> cs \<noteq> [] then None
      else map_option int (decimal_nat 0 (c # cs)))"

subsection \<open>Comparisons\<close>

text \<open>
  \<^verbatim>\<open>_expression\<close>: one equation for each branch of the \<^verbatim>\<open>isinstance\<close>
  chain, in the order of the source, and the \<^verbatim>\<open>raise\<close> after the chain as the last
  one. The third branch, \<^verbatim>\<open>isinstance(other, int)\<close>, takes integers and booleans
  and formats both with \<^verbatim>\<open>str\<close>, which for a boolean is its own and has no
  limit. \<^verbatim>\<open>self.name\<close> is read inside the branches only, and the left operand
  before the right one.
\<close>

fun expression :: "Column \<Rightarrow> string \<Rightarrow> pyval \<Rightarrow> error + Expression" where
  "expression self op (PyColumn c) =
     and_then (name self) (\<lambda>l. and_then (name c) (\<lambda>r.
       Inr (Expression_init l op r)))"
| "expression self op (PyStr s) =
     and_then (name self) (\<lambda>l.
       Inr (Expression_init l op ([CHR 0x27] @ s @ [CHR 0x27])))"
| "expression self op (PyInt i) =
     and_then (name self) (\<lambda>l. and_then (str_int int_max_str_digits i) (\<lambda>r.
       Inr (Expression_init l op r)))"
| "expression self op (PyBool b) =
     and_then (name self) (\<lambda>l.
       Inr (Expression_init l op (str_bool b)))"
| "expression self op other = Inl NotImplementedError"

definition Column_str :: "Column \<Rightarrow> error + string" where
  "Column_str self = name self"

definition Column_eq :: "Column \<Rightarrow> pyval \<Rightarrow> error + Expression" where
  "Column_eq self other = expression self ''='' other"

definition Column_lt :: "Column \<Rightarrow> pyval \<Rightarrow> error + Expression" where
  "Column_lt self other = expression self ''<'' other"

definition Column_gt :: "Column \<Rightarrow> pyval \<Rightarrow> error + Expression" where
  "Column_gt self other = expression self ''>'' other"

definition Column_le :: "Column \<Rightarrow> pyval \<Rightarrow> error + Expression" where
  "Column_le self other = expression self ''<='' other"

definition Column_ge :: "Column \<Rightarrow> pyval \<Rightarrow> error + Expression" where
  "Column_ge self other = expression self ''>='' other"

text \<open>\<^verbatim>\<open>str(e)\<close> of the result of a comparison, when it returned one.\<close>

definition rendered :: "error + Expression \<Rightarrow> error + string" where
  "rendered r = and_then r (\<lambda>e. Inr (Expression_str e))"

text \<open>The right text of the result of a comparison, when it returned one.\<close>

definition right_text :: "error + Expression \<Rightarrow> error + string" where
  "right_text r = and_then r (\<lambda>e. Inr (right e))"

subsection \<open>The Columns that exist\<close>

text \<open>
  A name is valid when one of the two imported objects accepts it. The invariant of a
  \<^verbatim>\<open>Column\<close> is that it has a name and that the name is valid.
\<close>

definition valid_name :: "regex_patterns \<Rightarrow> string \<Rightarrow> bool" where
  "valid_name env s =
     (accepts (VALID_IDENTIFIER_REGEX env) s \<or> accepts (AGGREGATE_IDENTIFIER_REGEX env) s)"

definition Column_inv :: "regex_patterns \<Rightarrow> Column \<Rightarrow> bool" where
  "Column_inv env self = (case name_attr self of None \<Rightarrow> False | Some n \<Rightarrow> valid_name env n)"

text \<open>
  A \<^verbatim>\<open>Column\<close> comes into existence when the constructor returns it, and the only
  method that assigns to it is the setter of \<^verbatim>\<open>name\<close>; a caller that catches the
  setter's exception keeps the object as the setter left it. The getter,
  \<^verbatim>\<open>_expression\<close>, \<^verbatim>\<open>__str__\<close> and the comparisons assign nothing.
\<close>

inductive exists_Column :: "regex_patterns \<Rightarrow> Column \<Rightarrow> bool" for env :: regex_patterns where
  constructed: "Column_init env s = Inr self \<Longrightarrow> exists_Column env self"
| assigned: "exists_Column env self \<Longrightarrow> name_setter env self s = (r, self') \<Longrightarrow> exists_Column env self'"

subsection \<open>The two grammars\<close>

text \<open>
  Modelled from the spec: the constants \<^verbatim>\<open>VALID_IDENTIFIER_REGEX\<close> and
  \<^verbatim>\<open>AGGREGATE_IDENTIFIER_REGEX\<close> of \<^verbatim>\<open>pysqlscribe/regex_patterns.py\<close>, a module
  that is not among the sources. The spec calls both "patterns" that are
  "process-wide constants", and \<^verbatim>\<open>column.py\<close> reads the method \<^verbatim>\<open>match\<close> of the
  first: both are compiled patterns. Their languages follow the spec's words:
  \<^item> a plain identifier is made of "letters, digits, underscore; does not start with
    a digit; may include dotted qualification such as \<^verbatim>\<open>schema.table.column\<close>";
  \<^item> an aggregate call is one of the aggregate keywords the spec names
    (\<^verbatim>\<open>COUNT\<close>, \<^verbatim>\<open>SUM\<close>, \<^verbatim>\<open>AVG\<close>) "followed by a parenthesized argument",
    the argument being an identifier.
  The general theorems below do not depend on these two languages: they hold for
  every pair of imported objects. The languages serve to run the model on the
  spec's examples.
\<close>

definition is_letter :: "char \<Rightarrow> bool" where
  "is_letter c = (c \<in> set ''abcdefghijklmnopqrstuvwxyzABCDEFGHIJKLMNOPQRSTUVWXYZ'')"

definition is_digit :: "char \<Rightarrow> bool" where
  "is_digit c = (c \<in> set ''0123456789'')"

definition ident_start :: "char \<Rightarrow> bool" where
  "ident_start c = (is_letter c \<or> c = CHR ''_'')"

definition ident_part :: "char \<Rightarrow> bool" where
  "ident_part c = (ident_start c \<or> is_digit c)"

fun segment :: "string \<Rightarrow> bool" where
  "segment [] = False"
| "segment (c # cs) = (ident_start c \<and> list_all ident_part cs)"

fun split_dots :: "string \<Rightarrow> string list" where
  "split_dots [] = [[]]"
| "split_dots (c # cs) =
     (if c = CHR ''.'' then [] # split_dots cs
      else (case split_dots cs of [] \<Rightarrow> [[c]] | w # ws \<Rightarrow> (c # w) # ws))"

definition plain_identifier :: "string \<Rightarrow> bool" where
  "plain_identifier s = list_all segment (split_dots s)"

definition aggregate_keywords :: "string list" where
  "aggregate_keywords = [''COUNT'', ''SUM'', ''AVG'']"

fun strip_prefix :: "string \<Rightarrow> string \<Rightarrow> string option" where
  "strip_prefix [] s = Some s"
| "strip_prefix (p # ps) [] = None"
| "strip_prefix (p # ps) (c # cs) = (if p = c then strip_prefix ps cs else None)"

definition aggregate_call :: "string \<Rightarrow> bool" where
  "aggregate_call s =
     list_ex (\<lambda>kw.
       case strip_prefix (kw @ ''('') s of
         None \<Rightarrow> False
       | Some rest \<Rightarrow> rest \<noteq> [] \<and> last rest = CHR '')'' \<and> plain_identifier (butlast rest))
     aggregate_keywords"

definition the_patterns :: regex_patterns where
  "the_patterns =
     \<lparr>VALID_IDENTIFIER_REGEX = Pattern plain_identifier,
      AGGREGATE_IDENTIFIER_REGEX = Pattern aggregate_call\<rparr>"

section \<open>Properties\<close>

subsection \<open>Auxiliary facts\<close>

lemma name_setter_cases:
  "name_setter env self s = (None, self\<lparr>name_attr := Some s\<rparr>) \<and> valid_name env s
   \<or> (\<exists>e. name_setter env self s = (Some e, self))"
  by (cases "VALID_IDENTIFIER_REGEX env"; cases "AGGREGATE_IDENTIFIER_REGEX env")
     (simp_all add: name_setter_def and_then_def valid_name_def)

lemma name_setter_invalid:
  "\<not> valid_name env s \<Longrightarrow> \<exists>e. name_setter env self s = (Some e, self)"
  using name_setter_cases [of env self s] by auto

lemma name_setter_matched:
  "VALID_IDENTIFIER_REGEX env = Pattern p \<Longrightarrow> p s \<Longrightarrow>
   name_setter env self s = (None, self\<lparr>name_attr := Some s\<rparr>)"
  by (simp add: name_setter_def and_then_def)

lemma name_setter_pattern_called:
  "VALID_IDENTIFIER_REGEX env = Pattern p \<Longrightarrow> AGGREGATE_IDENTIFIER_REGEX env = Pattern q \<Longrightarrow>
   \<not> p s \<Longrightarrow> name_setter env self s = (Some TypeError, self)"
  by (simp add: name_setter_def and_then_def)

lemma Column_init_Inr:
  "Column_init env s = Inr self \<Longrightarrow> self = \<lparr>name_attr = Some s\<rparr> \<and> valid_name env s"
  using name_setter_cases [of env "\<lparr>name_attr = None\<rparr>" s]
  by (auto simp: Column_init_def)

lemma name_Some: "name \<lparr>name_attr = Some n\<rparr> = Inr n"
  by (simp add: name_def)

lemma digit_value_digit_char: "d < 10 \<Longrightarrow> digit_value (digit_char d) = Some d"
proof -
  assume "d < 10"
  then have "d \<in> {0, 1, 2, 3, 4, 5, 6, 7, 8, 9}" by auto
  then show ?thesis
    by (auto simp: digit_value_def digit_char_def)
qed

lemma digit_char_in: "d < 10 \<Longrightarrow> digit_char d \<in> set ''0123456789''"
proof -
  assume "d < 10"
  then have "d < length ''0123456789''" by simp
  then show ?thesis
    unfolding digit_char_def by (rule nth_mem)
qed

lemma decimal_nat_append:
  "decimal_nat acc (xs @ ys) =
     (case decimal_nat acc xs of None \<Rightarrow> None | Some a \<Rightarrow> decimal_nat a ys)"
  by (induction xs arbitrary: acc) (auto split: option.splits)

lemma decimal_nat_digits: "decimal_nat 0 (digits n) = Some n"
proof (induction n rule: digits.induct)
  case (1 n)
  show ?case
  proof (cases "n < 10")
    case True
    then show ?thesis
      by (subst digits.simps) (simp add: digit_value_digit_char)
  next
    case False
    with 1 have "decimal_nat 0 (digits (n div 10)) = Some (n div 10)" by simp
    with False show ?thesis
      by (subst digits.simps) (simp add: decimal_nat_append digit_value_digit_char)
  qed
qed

lemma set_digits: "set (digits n) \<subseteq> set ''0123456789''"
proof (induction n rule: digits.induct)
  case (1 n)
  show ?case
  proof (cases "n < 10")
    case True
    then show ?thesis
      using digit_char_in [of n] by (subst digits.simps) simp
  next
    case False
    with 1 have "set (digits (n div 10)) \<subseteq> set ''0123456789''" by simp
    with False show ?thesis
      using digit_char_in [of "n mod 10"] by (subst digits.simps) simp
  qed
qed

lemma digits_not_Nil: "digits n \<noteq> []"
  by (subst digits.simps) simp

lemma hd_digits: "0 < n \<Longrightarrow> hd (digits n) \<noteq> CHR ''0''"
proof (induction n rule: digits.induct)
  case (1 n)
  show ?case
  proof (cases "n < 10")
    case True
    with 1(2) have "n \<in> {1, 2, 3, 4, 5, 6, 7, 8, 9}" by auto
    then show ?thesis
      by (subst digits.simps) (auto simp: digit_char_def)
  next
    case False
    then have "0 < n div 10" by simp
    with 1 False have "hd (digits (n div 10)) \<noteq> CHR ''0''" by simp
    with False show ?thesis
      by (subst digits.simps) (simp add: digits_not_Nil)
  qed
qed

lemma digits_0: "digits 0 = ''0''"
  by (subst digits.simps) (simp add: digit_char_def)

lemma length_digits: "0 < k \<Longrightarrow> (k < length (digits n)) = (10 ^ k \<le> n)"
proof (induction n arbitrary: k rule: digits.induct)
  case (1 n)
  show ?case
  proof (cases "n < 10")
    case True
    have "(10::nat) ^ 1 \<le> 10 ^ k"
      using 1(2) by (intro power_increasing) auto
    with True have "\<not> 10 ^ k \<le> n" by simp
    with True 1(2) show ?thesis
      by (subst digits.simps) simp
  next
    case False
    show ?thesis
    proof (cases "k = 1")
      case True
      with False show ?thesis
        by (subst digits.simps) (simp add: digits_not_Nil)
    next
      case k: False
      with 1(2) obtain j where j: "k = Suc j" "0 < j" by (cases k) auto
      with 1(1) False have "(j < length (digits (n div 10))) = (10 ^ j \<le> n div 10)" by simp
      also have "\<dots> = (10 ^ j * 10 \<le> n)"
        by (simp add: less_eq_div_iff_mult_less_eq)
      finally show ?thesis
        using False j by (subst digits.simps) (simp add: mult.commute)
    qed
  qed
qed

lemma digit_value_Some: "digit_value c = Some d \<Longrightarrow> d < 10 \<and> c = digit_char d"
  by (auto simp: digit_value_def digit_char_def split: if_splits)

lemma decimal_nat_snoc:
  "decimal_nat acc (xs @ [c]) = Some n \<Longrightarrow>
   \<exists>m d. decimal_nat acc xs = Some m \<and> digit_value c = Some d \<and> n = 10 * m + d"
  by (auto simp: decimal_nat_append split: option.splits)

lemma decimal_nat_canonical:
  "s \<noteq> [] \<Longrightarrow> hd s \<noteq> CHR ''0'' \<or> s = ''0'' \<Longrightarrow> decimal_nat 0 s = Some n \<Longrightarrow> s = digits n"
proof (induction s arbitrary: n rule: rev_induct)
  case Nil
  then show ?case by simp
next
  case (snoc c xs)
  from decimal_nat_snoc [OF snoc.prems(3)] obtain m d where
    m: "decimal_nat 0 xs = Some m" and d: "digit_value c = Some d" and n: "n = 10 * m + d"
    by blast
  from digit_value_Some [OF d] have d10: "d < 10" and c: "c = digit_char d" by simp_all
  show ?case
  proof (cases "xs = []")
    case True
    with m n d10 c show ?thesis
      by (subst digits.simps) simp
  next
    case False
    with snoc.prems(2) have h: "hd xs \<noteq> CHR ''0''" by auto
    with False m snoc.IH have xs: "xs = digits m" by blast
    have "m \<noteq> 0"
    proof
      assume "m = 0"
      with xs h show False by (simp add: digits_0)
    qed
    with n d10 have "\<not> n < 10" "n div 10 = m" "n mod 10 = d" by simp_all
    with xs c show ?thesis
      by (subst digits.simps) simp
  qed
qed

lemma decimal_value_decimal_text: "decimal_value (decimal_text i) = Some i"
proof (cases "i < 0")
  case True
  obtain c cs where d: "digits (nat (- i)) = c # cs"
    using digits_not_Nil [of "nat (- i)"] by (cases "digits (nat (- i))") auto
  have "c \<noteq> CHR ''0''"
    using hd_digits [of "nat (- i)"] True d by simp
  moreover have "decimal_nat 0 (c # cs) = Some (nat (- i))"
    using decimal_nat_digits [of "nat (- i)"] d by simp
  ultimately show ?thesis
    using True d by (simp add: decimal_text_def)
next
  case False
  obtain c cs where d: "digits (nat i) = c # cs"
    using digits_not_Nil [of "nat i"] by (cases "digits (nat i)") auto
  have "c \<in> set ''0123456789''"
    using set_digits [of "nat i"] d by auto
  then have minus: "c \<noteq> CHR ''-''" by auto
  have zero: "\<not> (c = CHR ''0'' \<and> cs \<noteq> [])"
  proof (cases "nat i = 0")
    case True
    with d show ?thesis by (simp add: digits_0)
  next
    case False
    then show ?thesis
      using hd_digits [of "nat i"] d by simp
  qed
  have "decimal_nat 0 (c # cs) = Some (nat i)"
    using decimal_nat_digits [of "nat i"] d by simp
  with minus zero show ?thesis
    using False d by (simp add: decimal_text_def)
qed

lemma decimal_value_canonical: "decimal_value s = Some i \<Longrightarrow> s = decimal_text i"
proof (cases s)
  case Nil
  assume "decimal_value s = Some i"
  with Nil show ?thesis by simp
next
  case (Cons c cs)
  assume v: "decimal_value s = Some i"
  show ?thesis
  proof (cases "c = CHR ''-''")
    case True
    with v Cons obtain n where cs: "cs \<noteq> []" "hd cs \<noteq> CHR ''0''"
      and n: "decimal_nat 0 cs = Some n" and i: "i = - int n"
      by (auto split: list.splits if_splits)
    from decimal_nat_canonical [OF cs(1) _ n] cs(2) have t: "cs = digits n" by simp
    have "n \<noteq> 0"
    proof
      assume "n = 0"
      with t cs(2) show False by (simp add: digits_0)
    qed
    with i t True Cons show ?thesis
      by (simp add: decimal_text_def)
  next
    case False
    with v Cons obtain n where z: "hd s \<noteq> CHR ''0'' \<or> s = ''0''"
      and n: "decimal_nat 0 s = Some n" and i: "i = int n"
      by (auto split: if_splits)
    from Cons have "s \<noteq> []" by simp
    from decimal_nat_canonical [OF this z n] i show ?thesis
      by (simp add: decimal_text_def)
  qed
qed

lemma decimal_value_iff: "(decimal_value s = Some i) = (s = decimal_text i)"
  using decimal_value_canonical [of s i] decimal_value_decimal_text [of i] by auto

lemma decimal_text_unquoted: "CHR 0x27 \<notin> set (decimal_text i)"
  using set_digits [of "nat i"] set_digits [of "nat (- i)"]
  by (auto simp: decimal_text_def)

lemma str_int_within:
  "max_str_digits = 0 \<or> length (digits (nat \<bar>i\<bar>)) \<le> max_str_digits \<Longrightarrow>
   str_int max_str_digits i = Inr (decimal_text i)"
  by (auto simp: str_int_def)

lemma str_int_beyond:
  "0 < max_str_digits \<Longrightarrow> 10 ^ max_str_digits \<le> \<bar>i\<bar> \<Longrightarrow> str_int max_str_digits i = Inl ValueError"
proof -
  assume k: "0 < max_str_digits" and "10 ^ max_str_digits \<le> \<bar>i\<bar>"
  then have "(10::nat) ^ max_str_digits \<le> nat \<bar>i\<bar>"
    by (simp add: le_nat_iff)
  with length_digits [OF k, of "nat \<bar>i\<bar>"] k show ?thesis
    by (simp add: str_int_def)
qed

lemma expression_unsupported:
  "\<not> isinstance_Column v \<Longrightarrow> \<not> isinstance_str v \<Longrightarrow> \<not> isinstance_int v \<Longrightarrow>
   expression self op v = Inl NotImplementedError"
  by (cases v) simp_all

subsection \<open>Rendering an Expression\<close>

text \<open>
  C9. For every Expression, \<^verbatim>\<open>render()\<close> (the method \<^verbatim>\<open>__str__\<close>) returns the left
  text, one space, the operator, one space and the right text, both for an Expression
  given by its fields and for one just built by the constructor. The method assigns
  nothing, so two calls on the same Expression return the same string.
\<close>

theorem Expression_str_render:
  "Expression_str e = left e @ '' '' @ operator e @ '' '' @ right e
   \<and> Expression_str (Expression_init l op r) = l @ '' '' @ op @ '' '' @ r
   \<and> length (Expression_str e) = length (left e) + length (operator e) + length (right e) + 2
   \<and> map Expression_str [e, e] = replicate 2 (left e @ '' '' @ operator e @ '' '' @ right e)"
  by (simp add: Expression_str_def Expression_init_def numeral_2_eq_2)

subsection \<open>Constructing a Column\<close>

text \<open>
  C3. When \<^verbatim>\<open>VALID_IDENTIFIER_REGEX\<close> is a compiled pattern and the string matches it
  (the string is in the plain-identifier grammar), \<^verbatim>\<open>Column(s)\<close> returns a Column,
  and the \<^verbatim>\<open>name\<close> of that Column is the string itself. The second imported object
  is never consulted.
\<close>

theorem plain_identifier_construct:
  assumes "VALID_IDENTIFIER_REGEX env = Pattern p" and "p s"
  shows "Column_init env s = Inr \<lparr>name_attr = Some s\<rparr>
         \<and> and_then (Column_init env s) name = Inr s"
  using name_setter_matched [OF assms, of "\<lparr>name_attr = None\<rparr>"]
  by (simp add: Column_init_def and_then_def name_def)

theorem plain_identifier_construct_witness:
  "and_then (Column_init the_patterns ''user_id'') name = Inr ''user_id''
   \<and> and_then (Column_init the_patterns ''orders.total'') name = Inr ''orders.total''"
proof -
  have v: "VALID_IDENTIFIER_REGEX the_patterns = Pattern plain_identifier"
    by (simp add: the_patterns_def)
  have a: "plain_identifier ''user_id''" by code_simp
  have b: "plain_identifier ''orders.total''" by code_simp
  show ?thesis
    using plain_identifier_construct [OF v a] plain_identifier_construct [OF v b]
    by (simp add: and_then_def name_def)
qed

text \<open>
  C1. The claim is that a name in the aggregate-call grammar, such as
  \<^verbatim>\<open>COUNT(id)\<close> or \<^verbatim>\<open>SUM(amount)\<close>, makes a Column. The setter does not ask the
  aggregate pattern for a match: it calls the pattern object, which raises
  \<^verbatim>\<open>TypeError\<close>. Both names are in the aggregate-call grammar, and for both the
  constructor raises \<^verbatim>\<open>TypeError\<close> and returns no Column.
\<close>

theorem aggregate_name_raises_TypeError:
  "aggregate_call ''COUNT(id)''
   \<and> Column_init the_patterns ''COUNT(id)'' = Inl TypeError
   \<and> aggregate_call ''SUM(amount)''
   \<and> Column_init the_patterns ''SUM(amount)'' = Inl TypeError"
  by code_simp

text \<open>
  C2. The claim is that a name in neither grammar, such as \<^verbatim>\<open>123abc\<close> or the empty
  string, makes the constructor raise \<^verbatim>\<open>InvalidColumnNameException\<close>. Both names
  are in neither grammar; for both the constructor returns no Column, and the exception
  it raises is the \<^verbatim>\<open>TypeError\<close> of the call of the pattern object, which comes
  before the \<^verbatim>\<open>raise\<close> statement is reached.
\<close>

theorem invalid_name_raises_TypeError:
  "\<not> plain_identifier ''123abc'' \<and> \<not> aggregate_call ''123abc''
   \<and> Column_init the_patterns ''123abc'' = Inl TypeError
   \<and> \<not> plain_identifier [] \<and> \<not> aggregate_call []
   \<and> Column_init the_patterns [] = Inl TypeError"
  by code_simp

subsection \<open>Comparisons\<close>

text \<open>
  C4. For a Column whose name is \<open>n\<close> and an operand that is a Column whose name is
  \<open>m\<close>, each of the five comparisons returns the Expression with left text \<open>n\<close>, its
  own operator, and right text \<open>m\<close> as it is, with nothing added around it; the
  equality renders as \<open>n = m\<close> and the less-than as \<open>n < m\<close>.
\<close>

theorem column_operand:
  assumes "name self = Inr n" and "name other = Inr m"
  shows "Column_eq self (PyColumn other) = Inr \<lparr>left = n, operator = ''='', right = m\<rparr>
         \<and> Column_lt self (PyColumn other) = Inr \<lparr>left = n, operator = ''<'', right = m\<rparr>
         \<and> Column_gt self (PyColumn other) = Inr \<lparr>left = n, operator = ''>'', right = m\<rparr>
         \<and> Column_le self (PyColumn other) = Inr \<lparr>left = n, operator = ''<='', right = m\<rparr>
         \<and> Column_ge self (PyColumn other) = Inr \<lparr>left = n, operator = ''>='', right = m\<rparr>
         \<and> rendered (Column_eq self (PyColumn other)) = Inr (n @ '' = '' @ m)
         \<and> rendered (Column_lt self (PyColumn other)) = Inr (n @ '' < '' @ m)"
  using assms
  by (simp add: Column_eq_def Column_lt_def Column_gt_def Column_le_def Column_ge_def
      rendered_def and_then_def Expression_init_def Expression_str_def)

theorem column_operand_witness:
  "Column_init the_patterns ''a'' = Inr \<lparr>name_attr = Some ''a''\<rparr>
   \<and> Column_init the_patterns ''b'' = Inr \<lparr>name_attr = Some ''b''\<rparr>
   \<and> rendered (Column_eq \<lparr>name_attr = Some ''a''\<rparr> (PyColumn \<lparr>name_attr = Some ''b''\<rparr>)) = Inr ''a = b''
   \<and> rendered (Column_lt \<lparr>name_attr = Some ''a''\<rparr> (PyColumn \<lparr>name_attr = Some ''b''\<rparr>)) = Inr ''a < b''"
proof -
  have a: "Column_init the_patterns ''a'' = Inr \<lparr>name_attr = Some ''a''\<rparr>" by code_simp
  have b: "Column_init the_patterns ''b'' = Inr \<lparr>name_attr = Some ''b''\<rparr>" by code_simp
  show ?thesis
    using a b column_operand [OF name_Some [of "''a''"] name_Some [of "''b''"]]
    by (simp add: rendered_def and_then_def Expression_str_def)
qed

text \<open>
  C5. For a Column whose name is \<open>n\<close> and an operand that is the string \<open>s\<close>, each of
  the five comparisons returns the Expression whose right text is \<open>s\<close> between two
  single quotes, whatever characters \<open>s\<close> holds (nothing is escaped); the equality
  renders as \<open>n = 's'\<close>.
\<close>

theorem string_operand:
  assumes "name self = Inr n"
  shows "Column_eq self (PyStr s) = Inr \<lparr>left = n, operator = ''='', right = [CHR 0x27] @ s @ [CHR 0x27]\<rparr>
         \<and> Column_lt self (PyStr s) = Inr \<lparr>left = n, operator = ''<'', right = [CHR 0x27] @ s @ [CHR 0x27]\<rparr>
         \<and> Column_gt self (PyStr s) = Inr \<lparr>left = n, operator = ''>'', right = [CHR 0x27] @ s @ [CHR 0x27]\<rparr>
         \<and> Column_le self (PyStr s) = Inr \<lparr>left = n, operator = ''<='', right = [CHR 0x27] @ s @ [CHR 0x27]\<rparr>
         \<and> Column_ge self (PyStr s) = Inr \<lparr>left = n, operator = ''>='', right = [CHR 0x27] @ s @ [CHR 0x27]\<rparr>
         \<and> rendered (Column_eq self (PyStr s)) = Inr (n @ '' = '' @ [CHR 0x27] @ s @ [CHR 0x27])"
  using assms
  by (simp add: Column_eq_def Column_lt_def Column_gt_def Column_le_def Column_ge_def
      rendered_def and_then_def Expression_init_def Expression_str_def)

theorem string_operand_witness:
  "Column_init the_patterns ''a'' = Inr \<lparr>name_attr = Some ''a''\<rparr>
   \<and> rendered (Column_eq \<lparr>name_attr = Some ''a''\<rparr> (PyStr ''foo''))
       = Inr (''a = '' @ [CHR 0x27] @ ''foo'' @ [CHR 0x27])
   \<and> right_text (Column_eq \<lparr>name_attr = Some ''a''\<rparr> (PyStr (''it'' @ [CHR 0x27] @ ''s'')))
       = Inr ([CHR 0x27] @ ''it'' @ [CHR 0x27] @ ''s'' @ [CHR 0x27])"
proof -
  have a: "Column_init the_patterns ''a'' = Inr \<lparr>name_attr = Some ''a''\<rparr>" by code_simp
  show ?thesis
    using a string_operand [OF name_Some [of "''a''"], of "''foo''"]
      string_operand [OF name_Some [of "''a''"], of "''it'' @ [CHR 0x27] @ ''s''"]
    by (simp add: right_text_def rendered_def and_then_def Expression_str_def)
qed

text \<open>
  C6. The claim is that every integer operand gives an Expression whose right text is
  the decimal form of the integer. For an integer of more than 4300 digits
  \<^verbatim>\<open>str\<close> raises \<^verbatim>\<open>ValueError\<close> and the comparison returns no Expression. For a
  Column whose name is \<open>n\<close> and an integer \<open>i\<close> of at most 4300 digits, each of the
  five comparisons returns the Expression whose right text is the decimal form of
  \<open>i\<close>: the one text that reads back as \<open>i\<close>, with no quote in it. The equality
  renders as \<open>n = \<close> followed by that text.
\<close>

theorem integer_operand:
  assumes "name self = Inr n" and "length (digits (nat \<bar>i\<bar>)) \<le> 4300"
  shows "Column_eq self (PyInt i) = Inr \<lparr>left = n, operator = ''='', right = decimal_text i\<rparr>
         \<and> Column_lt self (PyInt i) = Inr \<lparr>left = n, operator = ''<'', right = decimal_text i\<rparr>
         \<and> Column_gt self (PyInt i) = Inr \<lparr>left = n, operator = ''>'', right = decimal_text i\<rparr>
         \<and> Column_le self (PyInt i) = Inr \<lparr>left = n, operator = ''<='', right = decimal_text i\<rparr>
         \<and> Column_ge self (PyInt i) = Inr \<lparr>left = n, operator = ''>='', right = decimal_text i\<rparr>
         \<and> (\<forall>s. (decimal_value s = Some i) = (s = decimal_text i))
         \<and> CHR 0x27 \<notin> set (decimal_text i)
         \<and> rendered (Column_eq self (PyInt i)) = Inr (n @ '' = '' @ decimal_text i)"
proof -
  have "str_int int_max_str_digits i = Inr (decimal_text i)"
    using assms(2) by (intro str_int_within) (simp add: int_max_str_digits_def)
  then show ?thesis
    using assms(1) decimal_value_iff [of _ i] decimal_text_unquoted [of i]
    by (simp add: Column_eq_def Column_lt_def Column_gt_def Column_le_def Column_ge_def
        rendered_def and_then_def Expression_init_def Expression_str_def)
qed

theorem integer_operand_witness:
  "Column_init the_patterns ''a'' = Inr \<lparr>name_attr = Some ''a''\<rparr>
   \<and> length (digits (nat \<bar>5\<bar>)) \<le> 4300
   \<and> length (digits (nat \<bar>- 120\<bar>)) \<le> 4300
   \<and> rendered (Column_eq \<lparr>name_attr = Some ''a''\<rparr> (PyInt 5)) = Inr ''a = 5''
   \<and> rendered (Column_eq \<lparr>name_attr = Some ''a''\<rparr> (PyInt (- 120))) = Inr ''a = -120''"
proof -
  have a: "Column_init the_patterns ''a'' = Inr \<lparr>name_attr = Some ''a''\<rparr>" by code_simp
  have five: "decimal_text 5 = ''5''" by code_simp
  have neg: "decimal_text (- 120) = ''-120''" by code_simp
  have l5: "length (digits (nat \<bar>5\<bar>)) \<le> 4300" by code_simp
  have l120: "length (digits (nat \<bar>- 120\<bar>)) \<le> 4300" by code_simp
  show ?thesis
    using a five neg l5 l120 integer_operand [OF name_Some [of "''a''"] l5]
      integer_operand [OF name_Some [of "''a''"] l120]
    by (simp add: rendered_def and_then_def Expression_str_def)
qed

text \<open>
  An integer \<open>i\<close> with \<open>10 ^ 4300 \<le> \<bar>i\<bar>\<close> has more than 4300 digits: on a Column
  that has a name, each of the five comparisons with it raises \<^verbatim>\<open>ValueError\<close>.
\<close>

lemma integer_operand_beyond:
  assumes "name self = Inr n" and "10 ^ 4300 \<le> \<bar>i\<bar>"
  shows "Column_eq self (PyInt i) = Inl ValueError
         \<and> Column_lt self (PyInt i) = Inl ValueError
         \<and> Column_gt self (PyInt i) = Inl ValueError
         \<and> Column_le self (PyInt i) = Inl ValueError
         \<and> Column_ge self (PyInt i) = Inl ValueError"
proof -
  have "str_int int_max_str_digits i = Inl ValueError"
    unfolding int_max_str_digits_def by (rule str_int_beyond) (simp, rule assms(2))
  then show ?thesis
    using assms(1)
    by (simp add: Column_eq_def Column_lt_def Column_gt_def Column_le_def Column_ge_def
        and_then_def)
qed

theorem integer_operand_counterexample:
  "Column_init the_patterns ''a'' = Inr \<lparr>name_attr = Some ''a''\<rparr>
   \<and> (Column_eq \<lparr>name_attr = Some ''a''\<rparr> (PyInt (10 ^ 4300)) = Inl ValueError
      \<and> Column_lt \<lparr>name_attr = Some ''a''\<rparr> (PyInt (10 ^ 4300)) = Inl ValueError
      \<and> Column_gt \<lparr>name_attr = Some ''a''\<rparr> (PyInt (10 ^ 4300)) = Inl ValueError
      \<and> Column_le \<lparr>name_attr = Some ''a''\<rparr> (PyInt (10 ^ 4300)) = Inl ValueError
      \<and> Column_ge \<lparr>name_attr = Some ''a''\<rparr> (PyInt (10 ^ 4300)) = Inl ValueError)"
proof (rule conjI)
  show "Column_init the_patterns ''a'' = Inr \<lparr>name_attr = Some ''a''\<rparr>" by code_simp
next
  have big: "(10::int) ^ 4300 \<le> \<bar>10 ^ 4300\<bar>" by (rule abs_ge_self)
  show "Column_eq \<lparr>name_attr = Some ''a''\<rparr> (PyInt (10 ^ 4300)) = Inl ValueError
      \<and> Column_lt \<lparr>name_attr = Some ''a''\<rparr> (PyInt (10 ^ 4300)) = Inl ValueError
      \<and> Column_gt \<lparr>name_attr = Some ''a''\<rparr> (PyInt (10 ^ 4300)) = Inl ValueError
      \<and> Column_le \<lparr>name_attr = Some ''a''\<rparr> (PyInt (10 ^ 4300)) = Inl ValueError
      \<and> Column_ge \<lparr>name_attr = Some ''a''\<rparr> (PyInt (10 ^ 4300)) = Inl ValueError"
    by (rule integer_operand_beyond [OF name_Some big])
qed

text \<open>
  C7. For an operand that is an instance of none of \<^verbatim>\<open>Column\<close>, \<^verbatim>\<open>str\<close> and
  \<^verbatim>\<open>int\<close> (a float, \<^verbatim>\<open>None\<close>, a list), each of the five comparisons raises
  \<^verbatim>\<open>NotImplementedError\<close> and returns no Expression, on every Column.
\<close>

theorem unsupported_operand:
  assumes "\<not> isinstance_Column v" and "\<not> isinstance_str v" and "\<not> isinstance_int v"
  shows "Column_eq self v = Inl NotImplementedError
         \<and> Column_lt self v = Inl NotImplementedError
         \<and> Column_gt self v = Inl NotImplementedError
         \<and> Column_le self v = Inl NotImplementedError
         \<and> Column_ge self v = Inl NotImplementedError"
  using expression_unsupported [OF assms]
  by (simp add: Column_eq_def Column_lt_def Column_gt_def Column_le_def Column_ge_def)

theorem unsupported_operand_witness:
  "Column_eq \<lparr>name_attr = Some ''a''\<rparr> (PyFloat 3 (- 1)) = Inl NotImplementedError
   \<and> Column_lt \<lparr>name_attr = Some ''a''\<rparr> (PyFloat 3 (- 1)) = Inl NotImplementedError
   \<and> Column_gt \<lparr>name_attr = Some ''a''\<rparr> (PyFloat 3 (- 1)) = Inl NotImplementedError
   \<and> Column_le \<lparr>name_attr = Some ''a''\<rparr> (PyFloat 3 (- 1)) = Inl NotImplementedError
   \<and> Column_ge \<lparr>name_attr = Some ''a''\<rparr> (PyFloat 3 (- 1)) = Inl NotImplementedError
   \<and> Column_eq \<lparr>name_attr = Some ''a''\<rparr> (PyList [PyInt 1, PyStr ''x'']) = Inl NotImplementedError
   \<and> Column_ge \<lparr>name_attr = Some ''a''\<rparr> PyNone = Inl NotImplementedError"
proof -
  have f: "\<not> isinstance_Column (PyFloat 3 (- 1))" "\<not> isinstance_str (PyFloat 3 (- 1))"
    "\<not> isinstance_int (PyFloat 3 (- 1))" by simp_all
  have l: "\<not> isinstance_Column (PyList [PyInt 1, PyStr ''x''])"
    "\<not> isinstance_str (PyList [PyInt 1, PyStr ''x''])"
    "\<not> isinstance_int (PyList [PyInt 1, PyStr ''x''])" by simp_all
  have n: "\<not> isinstance_Column PyNone" "\<not> isinstance_str PyNone" "\<not> isinstance_int PyNone"
    by simp_all
  show ?thesis
    using unsupported_operand [OF f, of "\<lparr>name_attr = Some ''a''\<rparr>"]
      unsupported_operand [OF l, of "\<lparr>name_attr = Some ''a''\<rparr>"]
      unsupported_operand [OF n, of "\<lparr>name_attr = Some ''a''\<rparr>"]
    by simp
qed

text \<open>
  C10. A boolean operand is an instance of \<^verbatim>\<open>int\<close>, so it takes the integer branch:
  for a Column whose name is \<open>n\<close>, each of the five comparisons returns an Expression,
  not \<^verbatim>\<open>NotImplementedError\<close>, and its right text is \<^verbatim>\<open>True\<close> or \<^verbatim>\<open>False\<close>.
\<close>

theorem boolean_operand:
  assumes "name self = Inr n"
  shows "isinstance_int (PyBool b)
         \<and> Column_eq self (PyBool b) = Inr \<lparr>left = n, operator = ''='', right = (if b then ''True'' else ''False'')\<rparr>
         \<and> Column_lt self (PyBool b) = Inr \<lparr>left = n, operator = ''<'', right = (if b then ''True'' else ''False'')\<rparr>
         \<and> Column_gt self (PyBool b) = Inr \<lparr>left = n, operator = ''>'', right = (if b then ''True'' else ''False'')\<rparr>
         \<and> Column_le self (PyBool b) = Inr \<lparr>left = n, operator = ''<='', right = (if b then ''True'' else ''False'')\<rparr>
         \<and> Column_ge self (PyBool b) = Inr \<lparr>left = n, operator = ''>='', right = (if b then ''True'' else ''False'')\<rparr>"
  using assms
  by (simp add: Column_eq_def Column_lt_def Column_gt_def Column_le_def Column_ge_def
      and_then_def Expression_init_def str_bool_def)

theorem boolean_operand_witness:
  "Column_init the_patterns ''a'' = Inr \<lparr>name_attr = Some ''a''\<rparr>
   \<and> rendered (Column_eq \<lparr>name_attr = Some ''a''\<rparr> (PyBool True)) = Inr ''a = True''
   \<and> rendered (Column_ge \<lparr>name_attr = Some ''a''\<rparr> (PyBool False)) = Inr ''a >= False''"
proof -
  have a: "Column_init the_patterns ''a'' = Inr \<lparr>name_attr = Some ''a''\<rparr>" by code_simp
  show ?thesis
    using a boolean_operand [OF name_Some [of "''a''"], of True]
      boolean_operand [OF name_Some [of "''a''"], of False]
    by (simp add: rendered_def and_then_def Expression_str_def)
qed

subsection \<open>The invariant of a Column\<close>

text \<open>
  Every Column that exists (returned by the constructor, then assigned to any number
  of times through the setter, whether the assignments raise or not) has a name, and
  the name is accepted by one of the two imported objects. Assigning a name that
  neither accepts raises an exception and leaves the Column as it was. This holds
  whatever the two imported objects are.
\<close>

lemma Column_invariant:
  assumes "exists_Column env self"
  shows "Column_inv env self
         \<and> (\<forall>s. \<not> valid_name env s \<longrightarrow> (\<exists>e. name_setter env self s = (Some e, self)))"
proof
  from assms show "Column_inv env self"
  proof (induction rule: exists_Column.induct)
    case (constructed s self)
    then show ?case
      using Column_init_Inr [of env s self] by (auto simp: Column_inv_def)
  next
    case (assigned self s r self')
    then show ?case
      using name_setter_cases [of env self s] by (auto simp: Column_inv_def)
  qed
next
  show "\<forall>s. \<not> valid_name env s \<longrightarrow> (\<exists>e. name_setter env self s = (Some e, self))"
    using name_setter_invalid by blast
qed

text \<open>
  C8. The claim is that every Column that exists has a valid name, that every
  operation keeps it so, and that assigning an invalid name to an existing Column
  raises \<^verbatim>\<open>InvalidColumnNameException\<close> and leaves the name unchanged. The invariant
  and its preservation hold, for every Column (lemma \<open>Column_invariant\<close>). On the
  Column made from \<^verbatim>\<open>a\<close>, which satisfies the invariant, assigning the invalid name
  \<^verbatim>\<open>123abc\<close> leaves the Column unchanged, and the exception raised is the
  \<^verbatim>\<open>TypeError\<close> of the call of the pattern object.
\<close>

theorem invalid_assignment_raises_TypeError:
  "Column_init the_patterns ''a'' = Inr \<lparr>name_attr = Some ''a''\<rparr>
   \<and> Column_inv the_patterns \<lparr>name_attr = Some ''a''\<rparr>
   \<and> \<not> valid_name the_patterns ''123abc''
   \<and> name_setter the_patterns \<lparr>name_attr = Some ''a''\<rparr> ''123abc''
       = (Some TypeError, \<lparr>name_attr = Some ''a''\<rparr>)"
proof -
  have a: "Column_init the_patterns ''a'' = Inr \<lparr>name_attr = Some ''a''\<rparr>" by code_simp
  have ex: "exists_Column the_patterns \<lparr>name_attr = Some ''a''\<rparr>"
    by (rule constructed [OF a])
  have bad: "\<not> valid_name the_patterns ''123abc''" by code_simp
  have v: "VALID_IDENTIFIER_REGEX the_patterns = Pattern plain_identifier"
    and g: "AGGREGATE_IDENTIFIER_REGEX the_patterns = Pattern aggregate_call"
    by (simp_all add: the_patterns_def)
  have p: "\<not> plain_identifier ''123abc''" by code_simp
  show ?thesis
    using a bad Column_invariant [OF ex] name_setter_pattern_called [OF v g p] by simp
qed

end
